theory Spec2Isabelle
  imports Complex_Main
begin

section \<open>The embeddings loader of the fairness notebook\<close>

text \<open>
  The code cell of \<^verbatim>\<open>assignment/a2/MLFairness.ipynb\<close>:
  \<^verbatim>\<open>
  def load_embeddings(filename):
      labels = []
      rows = []
      with open(filename, encoding='utf-8') as infile:
          for i, line in enumerate(infile):
              items = line.rstrip().split(' ')
              if len(items) == 2:
                  # This is a header row giving the shape of the matrix
                  continue
              labels.append(items[0])
              values = np.array([float(x) for x in items[1:]], 'f')
              rows.append(values)

      arr = np.vstack(rows)
      return pd.DataFrame(arr, index=labels, dtype='f')
  \<close>
  Exceptions are values of the type \<open>error\<close>; a function that may raise returns
  \<open>error + 'a\<close>, with \<open>Inl\<close> for the exception.
\<close>

datatype error =
    FileNotFoundError string
  | ValueError
  | IndexError
  | NameError string

subsection \<open>Text, lines and fields\<close>

text \<open>
  A text is a \<open>string\<close>, one \<open>char\<close> for each code point (code points below 256).
  \<open>isspace\<close> is Python's \<^verbatim>\<open>str.isspace\<close> on that range: the control characters
  9 to 13 and 28 to 31, the space, NEL (133) and the no-break space (160).
\<close>

definition isspace :: "char \<Rightarrow> bool" where
  "isspace c =
     (let n = (of_char c :: nat)
      in (9 \<le> n \<and> n \<le> 13) \<or> (28 \<le> n \<and> n \<le> 31) \<or> n = 32 \<or> n = 133 \<or> n = 160)"

text \<open>\<^verbatim>\<open>s.rstrip()\<close>: the string without its trailing whitespace.\<close>

definition str_rstrip :: "string \<Rightarrow> string" where
  "str_rstrip s = rev (dropWhile isspace (rev s))"

text \<open>
  \<^verbatim>\<open>s.split(sep)\<close> with a one-character separator: every occurrence of the separator
  ends a field, adjacent separators give empty fields, and the empty string gives one
  empty field.
\<close>

fun str_split :: "char \<Rightarrow> string \<Rightarrow> string list" where
  "str_split sep [] = [[]]"
| "str_split sep (c # cs) =
     (if c = sep then [] # str_split sep cs
      else (case str_split sep cs of
              [] \<Rightarrow> [[c]]
            | w # ws \<Rightarrow> (c # w) # ws))"

text \<open>
  The file is opened in text mode with the default \<^verbatim>\<open>newline=None\<close>: a carriage return,
  alone or followed by a line feed, is read as one line feed (\<open>universal_newlines\<close>), and
  iterating over the file gives the lines, each with its line feed, the last one without
  when the text does not end in a line feed (\<open>iter_lines\<close>).
\<close>

fun universal_newlines :: "string \<Rightarrow> string" where
  "universal_newlines [] = []"
| "universal_newlines [c] = [if c = CHR 0x0D then CHR 0x0A else c]"
| "universal_newlines (c # d # cs) =
     (if c = CHR 0x0D \<and> d = CHR 0x0A then CHR 0x0A # universal_newlines cs
      else if c = CHR 0x0D then CHR 0x0A # universal_newlines (d # cs)
      else c # universal_newlines (d # cs))"

fun split_lines :: "string \<Rightarrow> string \<Rightarrow> string list" where
  "split_lines cur [] = (if cur = [] then [] else [cur])"
| "split_lines cur (c # cs) =
     (if c = CHR 0x0A then (cur @ [c]) # split_lines [] cs
      else split_lines (cur @ [c]) cs)"

definition iter_lines :: "string \<Rightarrow> string list" where
  "iter_lines text = split_lines [] (universal_newlines text)"

text \<open>The fields of a line: \<^verbatim>\<open>line.rstrip().split(' ')\<close>.\<close>

definition items_of :: "string \<Rightarrow> string list" where
  "items_of line = str_split (CHR '' '') (str_rstrip line)"

subsection \<open>The library calls\<close>

text \<open>
  \<^verbatim>\<open>[float(x) for x in xs]\<close>: the built-in \<^verbatim>\<open>float\<close> is a parameter, \<open>None\<close> where it
  raises \<^verbatim>\<open>ValueError\<close>; the comprehension raises at the first such field.
\<close>

fun float_all :: "(string \<Rightarrow> 'd option) \<Rightarrow> string list \<Rightarrow> error + 'd list" where
  "float_all pyfloat [] = Inr []"
| "float_all pyfloat (x # xs) =
     (case pyfloat x of
        None \<Rightarrow> Inl ValueError
      | Some v \<Rightarrow>
          (case float_all pyfloat xs of
             Inl e \<Rightarrow> Inl e
           | Inr vs \<Rightarrow> Inr (v # vs)))"

text \<open>
  \<^verbatim>\<open>np.vstack(rows)\<close> on one-dimensional arrays: \<^verbatim>\<open>ValueError\<close> on the empty list
  (``need at least one array to concatenate'') and on rows of different lengths,
  otherwise the two-dimensional array with these rows.
\<close>

definition vstack :: "'a list list \<Rightarrow> error + 'a list list" where
  "vstack rows =
     (case rows of
        [] \<Rightarrow> Inl ValueError
      | r # rs \<Rightarrow> if list_all (\<lambda>r'. length r' = length r) rs then Inr rows else Inl ValueError)"

text \<open>
  \<^verbatim>\<open>pd.DataFrame(arr, index=labels, dtype='f')\<close>: the table with the rows of \<open>arr\<close>
  and one label for each row; \<^verbatim>\<open>ValueError\<close> when the numbers of labels and rows differ.
\<close>

record 'a dataframe =
  index :: "string list"
  data :: "'a list list"

definition DataFrame :: "'a list list \<Rightarrow> string list \<Rightarrow> error + 'a dataframe" where
  "DataFrame arr labels =
     (if length labels = length arr then Inr \<lparr>index = labels, data = arr\<rparr> else Inl ValueError)"

subsection \<open>\<open>load_embeddings\<close>\<close>

text \<open>
  The loop over the lines, with the two lists it appends to. The index \<open>i\<close> of
  \<^verbatim>\<open>enumerate\<close> is never read. \<open>f32\<close> is the conversion of \<^verbatim>\<open>np.array(..., 'f')\<close>
  to single precision.
\<close>

fun read_rows ::
  "(string \<Rightarrow> 'd option) \<Rightarrow> ('d \<Rightarrow> 'f) \<Rightarrow> string list \<Rightarrow> string list \<Rightarrow> 'f list list
     \<Rightarrow> error + (string list \<times> 'f list list)" where
  "read_rows pyfloat f32 [] labels rows = Inr (labels, rows)"
| "read_rows pyfloat f32 (line # rest) labels rows =
     (let items = items_of line
      in if length items = 2 then read_rows pyfloat f32 rest labels rows
         else (case items of
                 [] \<Rightarrow> Inl IndexError
               | w # numbers \<Rightarrow>
                   (case float_all pyfloat numbers of
                      Inl e \<Rightarrow> Inl e
                    | Inr vs \<Rightarrow>
                        read_rows pyfloat f32 rest (labels @ [w]) (rows @ [map f32 vs]))))"

text \<open>
  The file system maps the name of a file that \<^verbatim>\<open>open\<close> opens and the UTF-8 decoder reads
  to the end to its decoded text, and is \<open>None\<close> where there is no such file. A file
  that exists and cannot be opened or decoded (\<^verbatim>\<open>PermissionError\<close>,
  \<^verbatim>\<open>IsADirectoryError\<close>, \<^verbatim>\<open>UnicodeDecodeError\<close>) has no place in this map: the
  model says nothing about it, and no property below is about such a file.
\<close>

definition load_embeddings ::
  "(string \<Rightarrow> 'd option) \<Rightarrow> ('d \<Rightarrow> 'f) \<Rightarrow> (string \<rightharpoonup> string) \<Rightarrow> string
     \<Rightarrow> error + 'f dataframe" where
  "load_embeddings pyfloat f32 fs filename =
     (case fs filename of
        None \<Rightarrow> Inl (FileNotFoundError filename)
      | Some text \<Rightarrow>
          (case read_rows pyfloat f32 (iter_lines text) [] [] of
             Inl e \<Rightarrow> Inl e
           | Inr (labels, rows) \<Rightarrow>
               (case vstack rows of
                  Inl e \<Rightarrow> Inl e
                | Inr arr \<Rightarrow> DataFrame arr labels)))"

section \<open>The model builder of the CNN notebook\<close>

text \<open>
  The cell that defines \<^verbatim>\<open>run\<close>:
  \<^verbatim>\<open>
  def run(
      epochs=10, embed_dim=5, num_filters=[2,2,2], kernel_sizes=[2,3,4],
      dense_layer_dims=[512, 256], dropout=0.4
  ):
      num_classes = len(ds.target_names)
      wordids = keras.layers.Input(shape=(max_len,))
      h = keras.layers.Embedding(ds.vocab.size, embed_dim, input_length=max_len)(wordids)
      conv_layers_for_all_kernel_sizes = []
      for filters, kernel_size in zip(kernel_sizes, num_filters):
          conv_layer = keras.layers.Conv1D(filters=filters, kernel_size=kernel_size, activation='relu')(h)
          conv_layer = keras.layers.GlobalMaxPooling1D()(conv_layer)
          conv_layers_for_all_kernel_sizes.append(conv_layer)
      h = keras.layers.concatenate(conv_layers_for_all_kernel_sizes, axis=1)
      h = keras.layers.Dropout(rate=dropout_rate)(h)
      for dim in dense_layer_dims:
          h = keras.layers.Dense(dim, activation='relu')(h)
      prediction = keras.layers.Dense(num_classes, activation='softmax')(h)
      model = keras.Model(inputs=wordids, outputs=prediction)
      model.compile(optimizer='adam',
                    loss='sparse_categorical_crossentropy',
                    metrics=['accuracy'])
      print({
          'epochs': epochs, 'embed_dim': embed_dim, 'num_filters': num_filters, 'kernel_sizes': kernel_sizes,
          'dense_layer_dims': dense_layer_dims, 'dropout': dropout
      })
      model.reset_states()
      model.fit(train_x, train_y, epochs=epochs)
      return model
  \<close>
\<close>

subsection \<open>Layers, tensors and the global names\<close>

text \<open>
  The framework is not interpreted: a layer is the constructor call with its arguments, a
  tensor is the expression that built it. A Python float is a real number here; \<open>run\<close>
  only passes it on.
\<close>

datatype layer =
    Embedding int int int
  | Conv1D int int string
  | GlobalMaxPooling1D
  | Dropout real
  | Dense int string

datatype tensor =
    Input "int list"
  | Apply layer tensor
  | Concatenate "tensor list" int

record keras_model =
  inputs :: tensor
  outputs :: tensor

text \<open>
  The global names that \<open>run\<close> reads. The cells before it bind \<^verbatim>\<open>ds\<close>, \<^verbatim>\<open>max_len\<close>,
  \<^verbatim>\<open>train_x\<close> and \<^verbatim>\<open>train_y\<close>. No cell of the notebook binds \<^verbatim>\<open>dropout_rate\<close>: it
  is bound only when the session has it from elsewhere, and \<open>None\<close> is the unbound name.
\<close>

record env =
  target_names :: "string list"
  vocab_size :: int
  max_len :: int
  train_x :: "int list list"
  train_y :: "int list"
  dropout_rate :: "real option"

text \<open>
  What \<open>run\<close> does besides building the graph, in the order of the calls; \<open>Print\<close> holds
  the printed dictionary, key by key.
\<close>

datatype pyval = PyInt int | PyFloat real | PyIntList "int list"

datatype event =
    Compile string string "string list"
  | Print "(string \<times> pyval) list"
  | ResetStates
  | Fit "int list list" "int list" int

record run_outcome =
  emitted :: "event list"
  returned :: "error + keras_model"

subsection \<open>\<open>run\<close>\<close>

text \<open>The loop over \<^verbatim>\<open>zip(kernel_sizes, num_filters)\<close>, appending one pooled branch each time.\<close>

fun conv_loop :: "tensor \<Rightarrow> (int \<times> int) list \<Rightarrow> tensor list \<Rightarrow> tensor list" where
  "conv_loop h [] conv_layers_for_all_kernel_sizes = conv_layers_for_all_kernel_sizes"
| "conv_loop h ((filters, kernel_size) # rest) conv_layers_for_all_kernel_sizes =
     (let conv_layer = Apply (Conv1D filters kernel_size ''relu'') h;
          conv_layer = Apply GlobalMaxPooling1D conv_layer
      in conv_loop h rest (conv_layers_for_all_kernel_sizes @ [conv_layer]))"

text \<open>The loop over \<^verbatim>\<open>dense_layer_dims\<close>.\<close>

fun dense_loop :: "tensor \<Rightarrow> int list \<Rightarrow> tensor" where
  "dense_loop h [] = h"
| "dense_loop h (dim' # dims) = dense_loop (Apply (Dense dim' ''relu'') h) dims"

text \<open>
  Reading \<^verbatim>\<open>dropout_rate\<close> raises \<^verbatim>\<open>NameError\<close> when the name is unbound; nothing has been
  compiled, printed or fitted at that point. Errors raised inside the framework are not
  modelled.
\<close>

definition run ::
  "env \<Rightarrow> int \<Rightarrow> int \<Rightarrow> int list \<Rightarrow> int list \<Rightarrow> int list \<Rightarrow> real \<Rightarrow> run_outcome" where
  "run env epochs embed_dim num_filters kernel_sizes dense_layer_dims dropout =
     (let num_classes = int (length (target_names env));
          wordids = Input [max_len env];
          h = Apply (Embedding (vocab_size env) embed_dim (max_len env)) wordids;
          conv_layers_for_all_kernel_sizes = conv_loop h (zip kernel_sizes num_filters) [];
          h = Concatenate conv_layers_for_all_kernel_sizes 1
      in case dropout_rate env of
           None \<Rightarrow> \<lparr>emitted = [], returned = Inl (NameError ''dropout_rate'')\<rparr>
         | Some rate \<Rightarrow>
             (let h = Apply (Dropout rate) h;
                  h = dense_loop h dense_layer_dims;
                  prediction = Apply (Dense num_classes ''softmax'') h;
                  model = \<lparr>inputs = wordids, outputs = prediction\<rparr>
              in \<lparr>emitted =
                    [Compile ''adam'' ''sparse_categorical_crossentropy'' [''accuracy''],
                     Print [(''epochs'', PyInt epochs), (''embed_dim'', PyInt embed_dim),
                            (''num_filters'', PyIntList num_filters),
                            (''kernel_sizes'', PyIntList kernel_sizes),
                            (''dense_layer_dims'', PyIntList dense_layer_dims),
                            (''dropout'', PyFloat dropout)],
                     ResetStates,
                     Fit (train_x env) (train_y env) epochs],
                  returned = Inr model\<rparr>))"

subsection \<open>Calls with keyword arguments, and the tuning cells\<close>

text \<open>
  A call gives some of the six arguments by keyword; \<open>None\<close> is an argument left out, for
  which the default of the \<^verbatim>\<open>def\<close> line is taken.
\<close>

record call =
  epochs_arg :: "int option"
  embed_dim_arg :: "int option"
  num_filters_arg :: "int list option"
  kernel_sizes_arg :: "int list option"
  dense_layer_dims_arg :: "int list option"
  dropout_arg :: "real option"

definition run_call :: "env \<Rightarrow> call \<Rightarrow> run_outcome" where
  "run_call env c =
     run env
       (case epochs_arg c of None \<Rightarrow> 10 | Some v \<Rightarrow> v)
       (case embed_dim_arg c of None \<Rightarrow> 5 | Some v \<Rightarrow> v)
       (case num_filters_arg c of None \<Rightarrow> [2, 2, 2] | Some v \<Rightarrow> v)
       (case kernel_sizes_arg c of None \<Rightarrow> [2, 3, 4] | Some v \<Rightarrow> v)
       (case dense_layer_dims_arg c of None \<Rightarrow> [512, 256] | Some v \<Rightarrow> v)
       (case dropout_arg c of None \<Rightarrow> 0.4 | Some v \<Rightarrow> v)"

definition no_args :: call where
  "no_args = \<lparr>epochs_arg = None, embed_dim_arg = None, num_filters_arg = None,
              kernel_sizes_arg = None, dense_layer_dims_arg = None, dropout_arg = None\<rparr>"

text \<open>
  The nine tuning cells, \<^verbatim>\<open>model1 = run(embed_dim=50)\<close> to
  \<^verbatim>\<open>model9 = run(epochs=5, embed_dim=25, dropout=0.8, dense_layer_dims=[128, 64],
  num_filters=[2,2,2], kernel_sizes=[2,4,6])\<close>, in the order of the notebook.
\<close>

definition model1 :: call where
  "model1 = no_args\<lparr>embed_dim_arg := Some 50\<rparr>"

definition model2 :: call where
  "model2 = no_args\<lparr>embed_dim_arg := Some 100, dropout_arg := Some 0.7,
                     dense_layer_dims_arg := Some [256, 256]\<rparr>"

definition model3 :: call where
  "model3 = no_args\<lparr>embed_dim_arg := Some 100, dropout_arg := Some 0.7,
                     dense_layer_dims_arg := Some [128, 128], num_filters_arg := Some [2, 2, 2],
                     kernel_sizes_arg := Some [2, 4, 8]\<rparr>"

definition model4 :: call where
  "model4 = no_args\<lparr>embed_dim_arg := Some 100, dropout_arg := Some 0.8,
                     dense_layer_dims_arg := Some [64, 32], num_filters_arg := Some [2, 2, 2],
                     kernel_sizes_arg := Some [2, 4, 8]\<rparr>"

definition model5 :: call where
  "model5 = no_args\<lparr>epochs_arg := Some 5, embed_dim_arg := Some 100, dropout_arg := Some 0.8,
                     dense_layer_dims_arg := Some [64, 32], num_filters_arg := Some [2, 2, 2],
                     kernel_sizes_arg := Some [2, 4, 8]\<rparr>"

definition model6 :: call where
  "model6 = no_args\<lparr>epochs_arg := Some 5, embed_dim_arg := Some 50, dropout_arg := Some 0.7,
                     dense_layer_dims_arg := Some [128, 64], num_filters_arg := Some [2, 2, 2],
                     kernel_sizes_arg := Some [2, 4, 6]\<rparr>"

definition model7 :: call where
  "model7 = no_args\<lparr>epochs_arg := Some 5, embed_dim_arg := Some 100, dropout_arg := Some 0.6,
                     dense_layer_dims_arg := Some [64, 32], num_filters_arg := Some [2, 2, 2],
                     kernel_sizes_arg := Some [2, 4, 6]\<rparr>"

definition model8 :: call where
  "model8 = no_args\<lparr>epochs_arg := Some 5, embed_dim_arg := Some 100, dropout_arg := Some 0.8,
                     dense_layer_dims_arg := Some [128, 64], num_filters_arg := Some [2, 2, 2],
                     kernel_sizes_arg := Some [2, 4, 6]\<rparr>"

definition model9 :: call where
  "model9 = no_args\<lparr>epochs_arg := Some 5, embed_dim_arg := Some 25, dropout_arg := Some 0.8,
                     dense_layer_dims_arg := Some [128, 64], num_filters_arg := Some [2, 2, 2],
                     kernel_sizes_arg := Some [2, 4, 6]\<rparr>"

definition tuning_cells :: "call list" where
  "tuning_cells = [model1, model2, model3, model4, model5, model6, model7, model8, model9]"

subsection \<open>Reading a graph\<close>

text \<open>
  The layers on the way from the input to a tensor, in the order of the data flow, the
  branches of a concatenation one after the other.
\<close>

fun layers_of :: "tensor \<Rightarrow> layer list" where
  "layers_of (Input shape) = []"
| "layers_of (Apply l t) = layers_of t @ [l]"
| "layers_of (Concatenate ts axis) = concat (map layers_of ts)"

fun conv_args :: "layer \<Rightarrow> (int \<times> int) list" where
  "conv_args (Conv1D filters kernel_size activation) = [(filters, kernel_size)]"
| "conv_args l = []"

fun dropout_args :: "layer \<Rightarrow> real list" where
  "dropout_args (Dropout rate) = [rate]"
| "dropout_args l = []"

text \<open>
  The branches of a model, in order: the inputs of its concatenation. The pair
  (\<open>filters\<close>, \<open>kernel_size\<close>) of each branch's \<^verbatim>\<open>Conv1D\<close>, and the rates of its
  \<^verbatim>\<open>Dropout\<close> layers.
\<close>

fun branches_of :: "tensor \<Rightarrow> tensor list" where
  "branches_of (Input shape) = []"
| "branches_of (Apply l t) = branches_of t"
| "branches_of (Concatenate ts axis) = ts"

definition branch_convs :: "keras_model \<Rightarrow> (int \<times> int) list list" where
  "branch_convs m = map (\<lambda>b. concat (map conv_args (layers_of b))) (branches_of (outputs m))"

definition dropout_rates :: "keras_model \<Rightarrow> real list" where
  "dropout_rates m = concat (map dropout_args (layers_of (outputs m)))"

text \<open>
  A session for the examples: two classes, sentences padded to forty tokens as in the
  second cell, a training set of two sentences, and \<^verbatim>\<open>dropout_rate\<close> bound or not.
\<close>

definition session :: "real option \<Rightarrow> env" where
  "session r = \<lparr>target_names = [''0'', ''1''], vocab_size = 16474, max_len = 40,
                train_x = [[2, 3] @ replicate 38 0, [4] @ replicate 39 0], train_y = [1, 0],
                dropout_rate = r\<rparr>"

section \<open>Notions used to state the properties\<close>

text \<open>
  The lines that the loop keeps, the label and the row that a kept line gives, and the
  lines whose fields after the first are all accepted by \<^verbatim>\<open>float\<close>.
\<close>

definition retained :: "string list \<Rightarrow> string list" where
  "retained ls = filter (\<lambda>l. length (items_of l) \<noteq> 2) ls"

definition label_of :: "string \<Rightarrow> string" where
  "label_of l = hd (items_of l)"

definition row_of :: "(string \<Rightarrow> 'd option) \<Rightarrow> ('d \<Rightarrow> 'f) \<Rightarrow> string \<Rightarrow> 'f list" where
  "row_of pyfloat f32 l = map (\<lambda>x. f32 (the (pyfloat x))) (tl (items_of l))"

definition numeric :: "(string \<Rightarrow> 'd option) \<Rightarrow> string \<Rightarrow> bool" where
  "numeric pyfloat l = list_all (\<lambda>x. pyfloat x \<noteq> None) (tl (items_of l))"

definition same_width :: "string list \<Rightarrow> bool" where
  "same_width ls = list_all (\<lambda>l. length (items_of l) = length (items_of (hd ls))) ls"

text \<open>
  A small instance of \<^verbatim>\<open>float\<close> for the examples: it accepts the non-empty strings of
  decimal digits, and nothing else.
\<close>

definition decimal :: "string \<Rightarrow> nat option" where
  "decimal s =
     (if s \<noteq> [] \<and> list_all (\<lambda>c. c \<in> set ''0123456789'') s
      then Some (foldl (\<lambda>n c. 10 * n + (of_char c - 48)) 0 s)
      else None)"

text \<open>The file system that holds one file.\<close>

definition single_file :: "string \<Rightarrow> string \<Rightarrow> (string \<rightharpoonup> string)" where
  "single_file name text = [name \<mapsto> text]"

text \<open>The model that a call returned, when it returned one.\<close>

definition built :: "run_outcome \<Rightarrow> keras_model option" where
  "built out = (case returned out of Inl e \<Rightarrow> None | Inr m \<Rightarrow> Some m)"

section \<open>Properties of \<open>load_embeddings\<close>\<close>

subsection \<open>The loop and the library calls in closed form\<close>

lemma str_split_nonempty: "str_split sep s \<noteq> []"
  by (induction s) (auto split: list.splits)

text \<open>A line always has a first field, so \<^verbatim>\<open>items[0]\<close> never raises.\<close>

lemma items_of_nonempty: "items_of l \<noteq> []"
  by (simp add: items_of_def str_split_nonempty)

lemma float_all_eq:
  "float_all pf xs =
     (if list_all (\<lambda>x. pf x \<noteq> None) xs then Inr (map (\<lambda>x. the (pf x)) xs) else Inl ValueError)"
  by (induction xs) (auto split: option.splits sum.splits)

lemma read_rows_eq:
  "read_rows pf f32 ls labels rows =
     (if list_all (numeric pf) (retained ls)
      then Inr (labels @ map label_of (retained ls), rows @ map (row_of pf f32) (retained ls))
      else Inl ValueError)"
proof (induction ls arbitrary: labels rows)
  case Nil
  show ?case by (simp add: retained_def)
next
  case (Cons l ls)
  show ?case
  proof (cases "length (items_of l) = 2")
    case True
    then show ?thesis using Cons.IH by (simp add: retained_def)
  next
    case False
    obtain w ns where its: "items_of l = w # ns"
      using items_of_nonempty by (cases "items_of l") auto
    show ?thesis
      using False its Cons.IH
      by (simp add: retained_def float_all_eq numeric_def label_of_def row_of_def)
  qed
qed

lemma length_row_of: "length (row_of pf f32 l) = length (items_of l) - 1"
  by (simp add: row_of_def)

lemma row_width_eq:
  "length (row_of pf f32 a) = length (row_of pf f32 b)
     \<longleftrightarrow> length (items_of a) = length (items_of b)"
proof -
  have "1 \<le> length (items_of a)" "1 \<le> length (items_of b)"
    using items_of_nonempty [of a] items_of_nonempty [of b]
    by (simp_all add: Suc_le_eq)
  then show ?thesis unfolding length_row_of by arith
qed

lemma vstack_rows_eq:
  "vstack (map (row_of pf f32) ls) =
     (if ls \<noteq> [] \<and> same_width ls then Inr (map (row_of pf f32) ls) else Inl ValueError)"
proof (cases ls)
  case Nil
  then show ?thesis by (simp add: vstack_def)
next
  case (Cons l ls')
  have "list_all (\<lambda>r'. length r' = length (row_of pf f32 l)) (map (row_of pf f32) ls')
          \<longleftrightarrow> list_all (\<lambda>l'. length (items_of l') = length (items_of l)) ls'"
    by (simp add: list_all_iff row_width_eq)
  then show ?thesis using Cons by (simp add: vstack_def same_width_def)
qed

text \<open>What \<open>load_embeddings\<close> gives on a file that exists.\<close>

lemma load_existing:
  assumes "fs filename = Some text"
  shows "load_embeddings pf f32 fs filename =
     (if retained (iter_lines text) \<noteq> [] \<and> list_all (numeric pf) (retained (iter_lines text))
           \<and> same_width (retained (iter_lines text))
      then Inr \<lparr>index = map label_of (retained (iter_lines text)),
                data = map (row_of pf f32) (retained (iter_lines text))\<rparr>
      else Inl ValueError)"
  using assms by (simp add: load_embeddings_def read_rows_eq vstack_rows_eq DataFrame_def)

subsection \<open>Examples\<close>

lemma example_lines:
  "iter_lines ''2 2\<newline>a 1 2\<newline>b 7\<newline>c 3 4\<newline>''
     = [''2 2\<newline>'', ''a 1 2\<newline>'', ''b 7\<newline>'', ''c 3 4\<newline>'']"
  "iter_lines ''a 1 2\<newline>c 3 4\<newline>'' = [''a 1 2\<newline>'', ''c 3 4\<newline>'']"
  "iter_lines ''a 1 2\<newline>b 1 2 3\<newline>'' = [''a 1 2\<newline>'', ''b 1 2 3\<newline>'']"
  "iter_lines ''2 2\<newline>'' = [''2 2\<newline>'']"
  "iter_lines [] = []"
  by (simp_all add: iter_lines_def)

lemma example_items:
  "items_of ''2 2\<newline>'' = [''2'', ''2'']"
  "items_of ''a 1 2\<newline>'' = [''a'', ''1'', ''2'']"
  "items_of ''b 7\<newline>'' = [''b'', ''7'']"
  "items_of ''c 3 4\<newline>'' = [''c'', ''3'', ''4'']"
  "items_of ''b 1 2 3\<newline>'' = [''b'', ''1'', ''2'', ''3'']"
  by (simp_all add: items_of_def str_rstrip_def isspace_def)

lemma example_decimal:
  "decimal ''1'' = Some 1" "decimal ''2'' = Some 2" "decimal ''3'' = Some 3"
  "decimal ''4'' = Some 4"
  by (simp_all add: decimal_def)

lemma example_not_numeric:
  "iter_lines ''c 3 x\<newline>'' = [''c 3 x\<newline>'']"
  "items_of ''c 3 x\<newline>'' = [''c'', ''3'', ''x'']"
  "decimal ''x'' = None"
  by (simp_all add: iter_lines_def items_of_def str_rstrip_def isspace_def decimal_def)

subsection \<open>The missing file\<close>

text \<open>
  C3: when no file has the given name, \<open>load_embeddings\<close> ends with the
  \<^verbatim>\<open>FileNotFoundError\<close> of the \<^verbatim>\<open>open\<close> call itself, for that file name: the error is not
  caught, retried or wrapped in another error, and no table is returned.
\<close>

theorem load_embeddings_missing_file:
  "fs filename = None \<Longrightarrow> load_embeddings pf f32 fs filename = Inl (FileNotFoundError filename)"
  by (simp add: load_embeddings_def)

theorem load_embeddings_missing_file_witness:
  "load_embeddings decimal id Map.empty ''data/glove.42B.300d.txt''
     = Inl (FileNotFoundError ''data/glove.42B.300d.txt'')"
  using load_embeddings_missing_file [of Map.empty "''data/glove.42B.300d.txt''" decimal id]
  by simp

subsection \<open>The table of a well-formed file\<close>

text \<open>
  C5, as amended: for every file in which at least one line is retained (does not split
  into exactly two fields), every field after the first of each retained line is accepted
  by \<^verbatim>\<open>float\<close>, and all retained lines have the same number of fields,
  \<open>load_embeddings\<close> returns a table whose row labels are, in file order, the first
  field of each retained line, and whose i-th row is the remaining fields of the i-th
  retained line, each parsed by \<^verbatim>\<open>float\<close> and converted to single precision.
\<close>

theorem load_embeddings_table:
  assumes "fs filename = Some text"
    and "retained (iter_lines text) \<noteq> []"
    and "list_all (numeric pf) (retained (iter_lines text))"
    and "same_width (retained (iter_lines text))"
  shows "load_embeddings pf f32 fs filename =
           Inr \<lparr>index = map label_of (retained (iter_lines text)),
                data = map (row_of pf f32) (retained (iter_lines text))\<rparr>"
  using assms by (simp add: load_existing)

theorem load_embeddings_table_witness:
  "load_embeddings decimal id
       (single_file ''vectors.txt'' ''2 2\<newline>a 1 2\<newline>b 7\<newline>c 3 4\<newline>'') ''vectors.txt''
     = Inr \<lparr>index = [''a'', ''c''], data = [[1, 2], [3, 4]]\<rparr>"
  using load_embeddings_table
    [of "single_file ''vectors.txt'' ''2 2\<newline>a 1 2\<newline>b 7\<newline>c 3 4\<newline>''" "''vectors.txt''"
        "''2 2\<newline>a 1 2\<newline>b 7\<newline>c 3 4\<newline>''" decimal id]
  by (simp add: single_file_def example_lines retained_def example_items numeric_def
        same_width_def label_of_def row_of_def example_decimal)

text \<open>
  As first stated, C5 asks only that every line other than a header is a word followed by
  numeric fields. Two files of that kind give no table: one whose two lines have two and
  three numbers, where \<^verbatim>\<open>np.vstack\<close> raises, and the empty file.
\<close>

theorem load_embeddings_table_counterexample:
  "list_all (numeric decimal) (retained (iter_lines ''a 1 2\<newline>b 1 2 3\<newline>''))
   \<and> load_embeddings decimal id
         (single_file ''vectors.txt'' ''a 1 2\<newline>b 1 2 3\<newline>'') ''vectors.txt''
       = Inl ValueError
   \<and> list_all (numeric decimal) (retained (iter_lines []))
   \<and> load_embeddings decimal id (single_file ''vectors.txt'' []) ''vectors.txt''
       = Inl ValueError"
  by (simp add: load_existing [of _ _ "''a 1 2\<newline>b 1 2 3\<newline>''"] load_existing [of _ _ "[]"]
        single_file_def example_lines retained_def example_items numeric_def
        same_width_def example_decimal)

subsection \<open>Lines of two fields\<close>

lemma retained_drop_line:
  "length (items_of l) = 2 \<Longrightarrow> retained (before @ l # after) = retained (before @ after)"
  by (simp add: retained_def)

text \<open>
  C9: a line that splits into exactly two fields is skipped wherever it stands in the
  file, not only as the first line: the result of \<open>load_embeddings\<close> is the result
  on the file without that line, so the line gives neither a label nor a row. A data line
  of a word with a one-dimensional vector is such a line.
\<close>

theorem load_embeddings_skips_two_field_lines:
  assumes "fs filename = Some text" and "fs' filename' = Some text'"
    and "iter_lines text = before @ l # after"
    and "length (items_of l) = 2"
    and "iter_lines text' = before @ after"
  shows "load_embeddings pf f32 fs filename = load_embeddings pf f32 fs' filename'"
  using assms by (simp add: load_existing retained_drop_line)

theorem load_embeddings_skips_two_field_lines_witness:
  "load_embeddings decimal id
       (single_file ''vectors.txt'' ''2 2\<newline>a 1 2\<newline>b 7\<newline>c 3 4\<newline>'') ''vectors.txt''
     = load_embeddings decimal id
         (single_file ''vectors.txt'' ''2 2\<newline>a 1 2\<newline>c 3 4\<newline>'') ''vectors.txt''"
  using load_embeddings_skips_two_field_lines
    [of "single_file ''vectors.txt'' ''2 2\<newline>a 1 2\<newline>b 7\<newline>c 3 4\<newline>''" "''vectors.txt''"
        "''2 2\<newline>a 1 2\<newline>b 7\<newline>c 3 4\<newline>''"
        "single_file ''vectors.txt'' ''2 2\<newline>a 1 2\<newline>c 3 4\<newline>''" "''vectors.txt''"
        "''2 2\<newline>a 1 2\<newline>c 3 4\<newline>''"
        "[''2 2\<newline>'', ''a 1 2\<newline>'']" "''b 7\<newline>''" "[''c 3 4\<newline>'']" decimal id]
  by (simp add: single_file_def iter_lines_def example_items)

subsection \<open>No retained line\<close>

text \<open>
  C10: on a file that is empty, or whose every line splits into exactly two fields, the
  loop ends with no label and no row, \<^verbatim>\<open>np.vstack\<close> raises on the empty list of rows,
  and \<open>load_embeddings\<close> ends with that error instead of an empty table.
\<close>

theorem load_embeddings_no_rows:
  fixes f32 :: "'d \<Rightarrow> 'f"
  assumes "fs filename = Some text"
    and "text = [] \<or> list_all (\<lambda>l. length (items_of l) = 2) (iter_lines text)"
  shows "read_rows pf f32 (iter_lines text) [] [] = Inr ([], [])
         \<and> vstack ([] :: 'f list list) = Inl ValueError
         \<and> load_embeddings pf f32 fs filename = Inl ValueError"
proof -
  have "list_all (\<lambda>l. length (items_of l) = 2) (iter_lines text)"
    using assms(2) by (auto simp: iter_lines_def)
  then have "retained (iter_lines text) = []"
    by (simp add: retained_def list_all_iff)
  then show ?thesis
    using assms(1) by (simp add: load_existing read_rows_eq vstack_def)
qed

theorem load_embeddings_no_rows_witness:
  "load_embeddings decimal id (single_file ''empty.txt'' []) ''empty.txt'' = Inl ValueError
   \<and> load_embeddings decimal id (single_file ''header.txt'' ''2 2\<newline>'') ''header.txt''
       = Inl ValueError"
  using load_embeddings_no_rows [of "single_file ''empty.txt'' []" "''empty.txt''" "[]" decimal id]
    load_embeddings_no_rows
      [of "single_file ''header.txt'' ''2 2\<newline>''" "''header.txt''" "''2 2\<newline>''" decimal id]
  by (simp add: single_file_def example_lines example_items)

subsection \<open>Failures on a file that exists\<close>

text \<open>
  C4, as amended: the missing file is not the only failure of \<open>load_embeddings\<close>. On a
  file that exists and is read as text it raises \<^verbatim>\<open>ValueError\<close> when no line is
  retained, when a field after the first of a retained line is not accepted by
  \<^verbatim>\<open>float\<close>, or when two retained lines differ in their number of fields. Nothing is
  said of the other errors that opening or reading a file may raise.
\<close>

theorem load_embeddings_value_errors:
  assumes "fs filename = Some text"
    and "retained (iter_lines text) = []
         \<or> \<not> list_all (numeric pf) (retained (iter_lines text))
         \<or> \<not> same_width (retained (iter_lines text))"
  shows "load_embeddings pf f32 fs filename = Inl ValueError"
  using assms by (auto simp: load_existing)

theorem load_embeddings_value_errors_witness:
  "load_embeddings decimal id (single_file ''vectors.txt'' ''2 2\<newline>'') ''vectors.txt''
       = Inl ValueError
   \<and> load_embeddings decimal id (single_file ''vectors.txt'' ''c 3 x\<newline>'') ''vectors.txt''
       = Inl ValueError
   \<and> load_embeddings decimal id
         (single_file ''vectors.txt'' ''a 1 2\<newline>b 1 2 3\<newline>'') ''vectors.txt''
       = Inl ValueError"
  using load_embeddings_value_errors
      [of "single_file ''vectors.txt'' ''2 2\<newline>''" "''vectors.txt''" "''2 2\<newline>''" decimal id]
    load_embeddings_value_errors
      [of "single_file ''vectors.txt'' ''c 3 x\<newline>''" "''vectors.txt''" "''c 3 x\<newline>''"
          decimal id]
    load_embeddings_value_errors
      [of "single_file ''vectors.txt'' ''a 1 2\<newline>b 1 2 3\<newline>''" "''vectors.txt''"
          "''a 1 2\<newline>b 1 2 3\<newline>''" decimal id]
  by (simp add: single_file_def example_lines example_not_numeric retained_def example_items
        numeric_def same_width_def example_decimal)

text \<open>
  As first stated, C4 has the missing file as the only failure. Here the file exists and
  holds one header line, and the call ends with \<^verbatim>\<open>ValueError\<close>.
\<close>

theorem load_embeddings_only_failure_counterexample:
  "single_file ''data/glove.42B.300d.txt'' ''2 2\<newline>'' ''data/glove.42B.300d.txt''
     = Some ''2 2\<newline>''
   \<and> load_embeddings decimal id
         (single_file ''data/glove.42B.300d.txt'' ''2 2\<newline>'') ''data/glove.42B.300d.txt''
       = Inl ValueError"
  by (simp add: load_existing [of _ _ "''2 2\<newline>''"] single_file_def example_lines retained_def
        example_items)

section \<open>Properties of \<open>run\<close>\<close>

subsection \<open>The loops and the result in closed form\<close>

lemma conv_loop_eq:
  "conv_loop h ps acc =
     acc @ map (\<lambda>(filters, kernel_size).
                  Apply GlobalMaxPooling1D (Apply (Conv1D filters kernel_size ''relu'') h)) ps"
  by (induction h ps acc rule: conv_loop.induct) simp_all

lemma layers_of_dense_loop:
  "layers_of (dense_loop h dims) = layers_of h @ map (\<lambda>d. Dense d ''relu'') dims"
  by (induction dims arbitrary: h) simp_all

lemma branches_of_dense_loop: "branches_of (dense_loop h dims) = branches_of h"
  by (induction dims arbitrary: h) simp_all

lemma dropout_args_branches:
  "concat (map dropout_args
      (concat (map (\<lambda>(filters, kernel_size).
                      [Embedding v d n, Conv1D filters kernel_size ''relu'', GlobalMaxPooling1D])
                 ps))) = []"
  by (induction ps) auto

lemma concat_map_empty: "concat (map (\<lambda>x. []) xs) = []"
  by (induction xs) simp_all

text \<open>With \<^verbatim>\<open>dropout_rate\<close> unbound the call ends at the \<^verbatim>\<open>Dropout\<close> line.\<close>

lemma run_unbound:
  "dropout_rate env = None \<Longrightarrow>
     run env epochs embed_dim num_filters kernel_sizes dense_layer_dims dropout
       = \<lparr>emitted = [], returned = Inl (NameError ''dropout_rate'')\<rparr>"
  by (simp add: run_def Let_def)

text \<open>
  With \<^verbatim>\<open>dropout_rate\<close> bound, the model is compiled, the six arguments are printed, and
  the model is fitted, in this order.
\<close>

lemma run_events:
  "emitted (run env epochs embed_dim num_filters kernel_sizes dense_layer_dims dropout)
     = (case dropout_rate env of
          None \<Rightarrow> []
        | Some r \<Rightarrow>
            [Compile ''adam'' ''sparse_categorical_crossentropy'' [''accuracy''],
             Print [(''epochs'', PyInt epochs), (''embed_dim'', PyInt embed_dim),
                    (''num_filters'', PyIntList num_filters),
                    (''kernel_sizes'', PyIntList kernel_sizes),
                    (''dense_layer_dims'', PyIntList dense_layer_dims),
                    (''dropout'', PyFloat dropout)],
             ResetStates,
             Fit (train_x env) (train_y env) epochs])"
  by (simp add: run_def Let_def split: option.splits)

text \<open>
  With \<^verbatim>\<open>dropout_rate\<close> bound to \<open>r\<close>, the layers from the input to the prediction: for
  each pair of the zip the embedding, a convolution and the pooling, then the dropout with
  rate \<open>r\<close>, one dense layer for each entry of \<^verbatim>\<open>dense_layer_dims\<close>, and the softmax layer.
\<close>

lemma run_layers:
  "map_option (\<lambda>m. (inputs m, layers_of (outputs m)))
       (built (run env epochs embed_dim num_filters kernel_sizes dense_layer_dims dropout))
     = map_option
         (\<lambda>r. (Input [max_len env],
               concat (map (\<lambda>(filters, kernel_size).
                              [Embedding (vocab_size env) embed_dim (max_len env),
                               Conv1D filters kernel_size ''relu'', GlobalMaxPooling1D])
                         (zip kernel_sizes num_filters))
               @ [Dropout r]
               @ map (\<lambda>d. Dense d ''relu'') dense_layer_dims
               @ [Dense (int (length (target_names env))) ''softmax'']))
         (dropout_rate env)"
  by (cases "dropout_rate env")
     (simp_all add: run_def Let_def built_def conv_loop_eq layers_of_dense_loop comp_def
        case_prod_unfold)

text \<open>
  The i-th branch has \<^verbatim>\<open>filters\<close> equal to the i-th entry of \<^verbatim>\<open>kernel_sizes\<close> and
  \<^verbatim>\<open>kernel_size\<close> equal to the i-th entry of \<^verbatim>\<open>num_filters\<close>, and there are as many
  branches as the shorter of the two lists has entries.
\<close>

lemma run_branch_convs:
  "map_option branch_convs
       (built (run env epochs embed_dim num_filters kernel_sizes dense_layer_dims dropout))
     = map_option
         (\<lambda>r. map (\<lambda>(filters, kernel_size). [(filters, kernel_size)])
                 (zip kernel_sizes num_filters))
         (dropout_rate env)"
  by (cases "dropout_rate env")
     (simp_all add: run_def Let_def built_def branch_convs_def conv_loop_eq
        branches_of_dense_loop comp_def case_prod_unfold)

text \<open>The rate of the one \<^verbatim>\<open>Dropout\<close> layer is the global \<^verbatim>\<open>dropout_rate\<close>.\<close>

lemma run_dropout_rates:
  "map_option dropout_rates
       (built (run env epochs embed_dim num_filters kernel_sizes dense_layer_dims dropout))
     = map_option (\<lambda>r. [r]) (dropout_rate env)"
proof -
  have "map_option dropout_rates
          (built (run env epochs embed_dim num_filters kernel_sizes dense_layer_dims dropout))
        = map_option (\<lambda>p. concat (map dropout_args (snd p)))
            (map_option (\<lambda>m. (inputs m, layers_of (outputs m)))
               (built (run env epochs embed_dim num_filters kernel_sizes dense_layer_dims
                  dropout)))"
    by (simp add: option.map_comp comp_def dropout_rates_def [abs_def])
  also have "\<dots> = map_option (\<lambda>r. [r]) (dropout_rate env)"
    unfolding run_layers
    by (simp add: option.map_comp comp_def dropout_args_branches concat_map_empty)
  finally show ?thesis .
qed

text \<open>The argument \<^verbatim>\<open>dropout\<close> has no part in what is returned.\<close>

lemma run_ignores_dropout:
  "returned (run env epochs embed_dim num_filters kernel_sizes dense_layer_dims dropout)
     = returned (run env epochs embed_dim num_filters kernel_sizes dense_layer_dims dropout')"
  by (simp add: run_def Let_def split: option.splits)

text \<open>
  A call in a session that has \<^verbatim>\<open>dropout_rate\<close> prints the six hyperparameters, with
  the defaults for the arguments left out, after compiling and before fitting. For the
  cell \<^verbatim>\<open>model1\<close> this is the dictionary that the notebook recorded.
\<close>

lemma run_call_events:
  "dropout_rate env = Some r \<Longrightarrow>
   emitted (run_call env c)
     = [Compile ''adam'' ''sparse_categorical_crossentropy'' [''accuracy''],
        Print [(''epochs'', PyInt (case epochs_arg c of None \<Rightarrow> 10 | Some v \<Rightarrow> v)),
               (''embed_dim'', PyInt (case embed_dim_arg c of None \<Rightarrow> 5 | Some v \<Rightarrow> v)),
               (''num_filters'',
                  PyIntList (case num_filters_arg c of None \<Rightarrow> [2, 2, 2] | Some v \<Rightarrow> v)),
               (''kernel_sizes'',
                  PyIntList (case kernel_sizes_arg c of None \<Rightarrow> [2, 3, 4] | Some v \<Rightarrow> v)),
               (''dense_layer_dims'',
                  PyIntList (case dense_layer_dims_arg c of None \<Rightarrow> [512, 256] | Some v \<Rightarrow> v)),
               (''dropout'', PyFloat (case dropout_arg c of None \<Rightarrow> 0.4 | Some v \<Rightarrow> v))],
        ResetStates,
        Fit (train_x env) (train_y env) (case epochs_arg c of None \<Rightarrow> 10 | Some v \<Rightarrow> v)]"
  by (simp add: run_call_def run_events)

lemma model1_prints_recorded_configuration:
  "emitted (run_call (session (Some r)) model1) ! 1
     = Print [(''epochs'', PyInt 10), (''embed_dim'', PyInt 50),
              (''num_filters'', PyIntList [2, 2, 2]), (''kernel_sizes'', PyIntList [2, 3, 4]),
              (''dense_layer_dims'', PyIntList [512, 256]), (''dropout'', PyFloat 0.4)]"
  by (simp add: run_call_events [of _ r] session_def model1_def no_args_def)

text \<open>The nine tuning cells are nine different calls.\<close>

lemma tuning_cells_distinct: "distinct tuning_cells"
  by (simp add: tuning_cells_def model1_def model2_def model3_def model4_def model5_def
        model6_def model7_def model8_def model9_def no_args_def)

subsection \<open>The calls of the notebook\<close>

text \<open>
  C1: the i-th branch's \<^verbatim>\<open>Conv1D\<close> should have \<^verbatim>\<open>filters\<close> equal to \<^verbatim>\<open>num_filters[i]\<close>
  and \<^verbatim>\<open>kernel_size\<close> equal to \<^verbatim>\<open>kernel_sizes[i]\<close>. The loop unpacks
  \<^verbatim>\<open>zip(kernel_sizes, num_filters)\<close> into \<^verbatim>\<open>filters, kernel_size\<close>, so the two are
  exchanged: the cell \<^verbatim>\<open>model3\<close>, with \<^verbatim>\<open>num_filters=[2,2,2]\<close> and
  \<^verbatim>\<open>kernel_sizes=[2,4,8]\<close>, builds branches with 2, 4 and 8 filters, each of kernel
  size 2, where three branches of 2 filters with kernel sizes 2, 4 and 8 were asked for.
\<close>

theorem run_conv_arguments_swapped:
  "num_filters_arg model3 = Some [2, 2, 2]
   \<and> kernel_sizes_arg model3 = Some [2, 4, 8]
   \<and> map_option branch_convs (built (run_call (session (Some r)) model3))
       = Some [[(2, 2)], [(4, 2)], [(8, 2)]]"
  by (simp add: run_call_def model3_def no_args_def session_def run_branch_convs)

text \<open>
  C2: the rate of the \<^verbatim>\<open>Dropout\<close> layer should be the argument \<^verbatim>\<open>dropout\<close>. The layer is
  built from the global name \<^verbatim>\<open>dropout_rate\<close> instead: the cell \<^verbatim>\<open>model2\<close> passes
  \<^verbatim>\<open>dropout=0.7\<close>, and in a session where \<^verbatim>\<open>dropout_rate\<close> is 0.5 the layer has rate 0.5,
  while in a session where the name is unbound the call raises \<^verbatim>\<open>NameError\<close>.
\<close>

theorem run_dropout_argument_unused:
  "dropout_arg model2 = Some 0.7
   \<and> map_option dropout_rates (built (run_call (session (Some 0.5)) model2)) = Some [0.5]
   \<and> returned (run_call (session None) model2) = Inl (NameError ''dropout_rate'')"
  by (simp add: run_call_def model2_def no_args_def session_def run_dropout_rates run_unbound)

text \<open>
  C6: every call should assemble the input, the embedding, the branches, the
  concatenation, the dropout, the dense layers and the softmax layer, and compile the
  model before fitting it. In a session that has not bound \<^verbatim>\<open>dropout_rate\<close>, as when
  the notebook is run from its first cell, the cell \<^verbatim>\<open>model1\<close> ends with \<^verbatim>\<open>NameError\<close> at
  the \<^verbatim>\<open>Dropout\<close> line: no model is returned, and nothing is compiled or fitted.
\<close>

theorem run_stops_at_unbound_dropout_rate:
  "run_call (session None) model1
     = \<lparr>emitted = [], returned = Inl (NameError ''dropout_rate'')\<rparr>"
  by (simp add: run_call_def session_def run_unbound)

text \<open>
  C7: every call should print its six hyperparameters before fitting. In a session that
  has not bound \<^verbatim>\<open>dropout_rate\<close>, none of the nine tuning cells prints anything or fits a
  model.
\<close>

theorem tuning_cells_print_nothing_when_unbound:
  "map (emitted \<circ> run_call (session None)) tuning_cells = [[], [], [], [], [], [], [], [], []]"
  by (simp add: tuning_cells_def run_call_def session_def run_unbound)

end
